theory Spec2Isabelle
  imports Complex_Main "HOL-Library.AList" "HOL-Library.Sublist"
begin

section \<open>The tabular container that GeoDataFrame extends\<close>

text \<open>
  \<^verbatim>\<open>geopandas/geodataframe.py\<close> defines \<^verbatim>\<open>class GeoDataFrame(DataFrame)\<close>. The
  pandas \<^verbatim>\<open>DataFrame\<close> is an external collaborator; only the primitives that
  \<^verbatim>\<open>geodataframe.py\<close> calls are modelled here, each by what it does:
  membership (\<^verbatim>\<open>key in frame\<close>), \<^verbatim>\<open>frame.columns[i]\<close>, \<^verbatim>\<open>frame[key]\<close>,
  \<^verbatim>\<open>frame[key] = value\<close>, \<^verbatim>\<open>frame.drop(label, inplace=True)\<close> and
  \<^verbatim>\<open>frame.iterrows()\<close>.

  A frame is stored column by column, as pandas does. Row labels are integers or
  strings; column labels are strings (the column names of the specification).
  Several columns may carry the same name.
\<close>

datatype label = IntL int | StrL string

datatype geometry = Geometry (geom_type_name: string) (coordinates: "(rat \<times> rat) list")

text \<open>A CRS is a dictionary: its items, with distinct keys.\<close>

type_synonym crs_dict = "(string \<times> string) list"

text \<open>
  A cell holds a geometry object, a number, a string, the float \<^verbatim>\<open>nan\<close>, or
  \<^verbatim>\<open>None\<close>. \<^verbatim>\<open>isnull\<close> is true of the last two.
\<close>

datatype cell =
    GeomV geometry
  | IntV int
  | FloatV rat
  | StrV string
  | NaN
  | NoneV


datatype error =
    ValueError string
  | KeyError
  | IndexError
  | TypeError
  | AttributeError

record frame =
  index :: "label list"
  cols :: "(string \<times> cell list) list"

definition columns :: "frame \<Rightarrow> string list" where
  "columns f = map fst (cols f)"

text \<open>\<^verbatim>\<open>key in frame\<close>: membership in the column labels.\<close>

definition df_contains :: "frame \<Rightarrow> string \<Rightarrow> bool" where
  "df_contains f k \<longleftrightarrow> k \<in> set (columns f)"

text \<open>
  \<^verbatim>\<open>frame.columns[i]\<close> for an integer \<^verbatim>\<open>i\<close>: Python indexing, negative
  positions count from the end, out of range raises \<^verbatim>\<open>IndexError\<close>.
\<close>

definition columns_getitem :: "frame \<Rightarrow> int \<Rightarrow> error + string" where
  "columns_getitem f i =
     (let n = int (length (columns f)); j = (if i < 0 then n + i else i)
      in if 0 \<le> j \<and> j < n then Inr (columns f ! nat j) else Inl IndexError)"

text \<open>
  The result of \<^verbatim>\<open>DataFrame.__getitem__\<close> is a \<^verbatim>\<open>Series\<close> (one column: its
  name, the row labels, the values) or a \<^verbatim>\<open>DataFrame\<close>.
\<close>

datatype pandas_obj =
    SeriesObj string "label list" "cell list"
  | FrameObj frame

datatype key =
    KeyLabel string
  | KeyList "string list"
  | KeyMask "bool list"

definition select_columns :: "frame \<Rightarrow> string \<Rightarrow> (string \<times> cell list) list" where
  "select_columns f k = filter (\<lambda>c. fst c = k) (cols f)"

definition select_rows :: "bool list \<Rightarrow> 'a list \<Rightarrow> 'a list" where
  "select_rows bs xs = map snd (filter fst (zip bs xs))"

text \<open>
  \<^verbatim>\<open>DataFrame.__getitem__(key)\<close>. A label that names no column raises
  \<^verbatim>\<open>KeyError\<close>; a label that names one column gives that column as a
  \<^verbatim>\<open>Series\<close>; a label shared by several columns gives the \<^verbatim>\<open>DataFrame\<close> of
  those columns. A list of labels gives the \<^verbatim>\<open>DataFrame\<close> of the named columns
  in the order of the list, and raises \<^verbatim>\<open>KeyError\<close> when one of them is absent.
  A boolean mask keeps the rows marked true and must be as long as the frame.
\<close>

definition df_getitem :: "frame \<Rightarrow> key \<Rightarrow> error + pandas_obj" where
  "df_getitem f key =
     (case key of
        KeyLabel k \<Rightarrow>
          (case select_columns f k of
             [] \<Rightarrow> Inl KeyError
           | [c] \<Rightarrow> Inr (SeriesObj k (index f) (snd c))
           | cs \<Rightarrow> Inr (FrameObj \<lparr>index = index f, cols = cs\<rparr>))
      | KeyList ks \<Rightarrow>
          (if \<forall>k \<in> set ks. df_contains f k
           then Inr (FrameObj \<lparr>index = index f,
                               cols = concat (map (select_columns f) ks)\<rparr>)
           else Inl KeyError)
      | KeyMask bs \<Rightarrow>
          (if length bs = length (index f)
           then Inr (FrameObj \<lparr>index = select_rows bs (index f),
                               cols = map (\<lambda>c. (fst c, select_rows bs (snd c))) (cols f)\<rparr>)
           else Inl (ValueError ''Item wrong length'')))"

text \<open>
  \<^verbatim>\<open>frame[k] = values\<close>, storing a column. Every column already called
  \<^verbatim>\<open>k\<close> is overwritten in place; otherwise the column is appended.
\<close>

definition store_column :: "frame \<Rightarrow> string \<Rightarrow> cell list \<Rightarrow> frame" where
  "store_column f k vs =
     (if df_contains f k
      then f\<lparr>cols := map (\<lambda>c. if fst c = k then (k, vs) else c) (cols f)\<rparr>
      else f\<lparr>cols := cols f @ [(k, vs)]\<rparr>)"

text \<open>
  \<^verbatim>\<open>frame[k] = list\<close>: the list must have one value per row, or pandas raises
  \<^verbatim>\<open>ValueError\<close>. A frame with no rows takes its rows from the list: it gets the
  default labels \<^verbatim>\<open>0 .. n-1\<close>, and its other columns are filled with \<^verbatim>\<open>nan\<close>.
\<close>

definition df_setitem_list :: "frame \<Rightarrow> string \<Rightarrow> cell list \<Rightarrow> error + frame" where
  "df_setitem_list f k vs =
     (if index f = []
      then Inr (store_column
                  \<lparr>index = map (\<lambda>i. IntL (int i)) [0..<length vs],
                   cols = map (\<lambda>c. (fst c, replicate (length vs) NaN)) (cols f)\<rparr> k vs)
      else if length vs = length (index f) then Inr (store_column f k vs)
      else Inl (ValueError ''Length of values does not match length of index''))"

text \<open>\<^verbatim>\<open>frame[k] = value\<close> for a single value: it is repeated on every row.\<close>

definition df_setitem_scalar :: "frame \<Rightarrow> string \<Rightarrow> cell \<Rightarrow> frame" where
  "df_setitem_scalar f k v = store_column f k (replicate (length (index f)) v)"

text \<open>
  \<^verbatim>\<open>frame.drop(label, inplace=True)\<close>. \<^verbatim>\<open>DataFrame.drop(labels, axis=0, ...)\<close>
  looks the label up along axis 0, the row labels, unless \<^verbatim>\<open>axis=1\<close> is passed:
  it removes the rows that carry the label and raises when no row carries it.
\<close>

definition keep_rows :: "label list \<Rightarrow> label \<Rightarrow> 'a list \<Rightarrow> 'a list" where
  "keep_rows idx l xs = map snd (filter (\<lambda>p. fst p \<noteq> l) (zip idx xs))"

definition df_drop :: "frame \<Rightarrow> label \<Rightarrow> error + frame" where
  "df_drop f l =
     (if l \<in> set (index f)
      then Inr \<lparr>index = filter (\<lambda>x. x \<noteq> l) (index f),
                cols = map (\<lambda>c. (fst c, keep_rows (index f) l (snd c))) (cols f)\<rparr>
      else Inl (ValueError ''labels not contained in axis''))"

text \<open>
  \<^verbatim>\<open>frame.iterrows()\<close>: one pair per row, the row label and the row as a
  \<^verbatim>\<open>Series\<close> indexed by the column labels.
\<close>

definition row_at :: "frame \<Rightarrow> nat \<Rightarrow> (string \<times> cell) list" where
  "row_at f i = map (\<lambda>c. (fst c, snd c ! i)) (cols f)"

definition iterrows :: "frame \<Rightarrow> (label \<times> (string \<times> cell) list) list" where
  "iterrows f = map (\<lambda>i. (index f ! i, row_at f i)) [0..<length (index f)]"

section \<open>GeoDataFrame\<close>

text \<open>
  A \<^verbatim>\<open>GeoDataFrame\<close> is a frame with the two attributes listed in
  \<^verbatim>\<open>_metadata\<close>: \<^verbatim>\<open>crs\<close> (a dictionary or \<^verbatim>\<open>None\<close>) and
  \<^verbatim>\<open>_geometry_column_name\<close>, whose class-level default is \<^verbatim>\<open>'geometry'\<close>.
\<close>

record geodataframe =
  data :: frame
  crs :: "crs_dict option"
  geometry_column_name :: string

text \<open>
  \<^verbatim>\<open>__getitem__\<close> re-tags the object that pandas returns by assigning to its
  \<^verbatim>\<open>__class__\<close>, and sets a \<^verbatim>\<open>crs\<close> attribute on it in two of its three
  branches. The result is therefore the pandas object, its class, and the
  \<^verbatim>\<open>crs\<close> attribute when one was set.
\<close>

datatype pyclass = ClsSeries | ClsGeoSeries | ClsDataFrame | ClsGeoDataFrame

record item =
  cls :: pyclass
  obj :: pandas_obj
  crs_attr :: "crs_dict option option"

text \<open>
  \<^verbatim>\<open>result['crs'] = self.crs\<close>. \<^verbatim>\<open>None\<close> is a single value and is repeated on
  every row. A dictionary has a length and can be iterated, so pandas takes it for
  a sequence, as it takes a list: the assignment stores \<^verbatim>\<open>list(self.crs)\<close>, the
  keys of the dictionary, and raises \<^verbatim>\<open>ValueError\<close> unless there is one key per
  row.
\<close>

definition df_setitem_crs :: "frame \<Rightarrow> string \<Rightarrow> crs_dict option \<Rightarrow> error + frame" where
  "df_setitem_crs f k c =
     (case c of
        None \<Rightarrow> Inr (df_setitem_scalar f k NoneV)
      | Some d \<Rightarrow> df_setitem_list f k (map (\<lambda>kv. StrV (fst kv)) d))"

text \<open>
  \<^verbatim>\<open>GeoDataFrame.__getitem__\<close>. \<^verbatim>\<open>isinstance(key, basestring)\<close> holds of a
  \<^verbatim>\<open>KeyLabel\<close> only; \<^verbatim>\<open>isinstance(result, DataFrame)\<close> holds of a
  \<^verbatim>\<open>FrameObj\<close> only. When no branch applies the pandas result is returned as
  it is, a plain \<^verbatim>\<open>Series\<close>.
\<close>

definition getitem :: "geodataframe \<Rightarrow> key \<Rightarrow> error + item" where
  "getitem self key =
     (let geo_col_name = geometry_column_name self in
      case df_getitem (data self) key of
        Inl e \<Rightarrow> Inl e
      | Inr result \<Rightarrow>
          if key = KeyLabel geo_col_name
          then Inr \<lparr>cls = ClsGeoSeries, obj = result, crs_attr = Some (crs self)\<rparr>
          else (case result of
                  FrameObj r \<Rightarrow>
                    if df_contains r geo_col_name
                    then Inr \<lparr>cls = ClsGeoDataFrame, obj = result, crs_attr = Some (crs self)\<rparr>
                    else (case df_setitem_crs r ''crs'' (crs self) of
                            Inl e \<Rightarrow> Inl e
                          | Inr r1 \<Rightarrow>
                              Inr \<lparr>cls = ClsDataFrame, obj = FrameObj r1, crs_attr = None\<rparr>)
                | SeriesObj n i v \<Rightarrow>
                    Inr \<lparr>cls = ClsSeries, obj = result, crs_attr = None\<rparr>))"

text \<open>The \<^verbatim>\<open>geometry\<close> property: \<^verbatim>\<open>self[self._geometry_column_name]\<close>.\<close>

definition geometry :: "geodataframe \<Rightarrow> error + item" where
  "geometry self = getitem self (KeyLabel (geometry_column_name self))"

text \<open>\<^verbatim>\<open>isinstance(level, Series)\<close>; \<^verbatim>\<open>GeoSeries\<close> is a subclass of \<^verbatim>\<open>Series\<close>.\<close>

definition isinstance_Series :: "item \<Rightarrow> bool" where
  "isinstance_Series level \<longleftrightarrow> cls level = ClsSeries \<or> cls level = ClsGeoSeries"

text \<open>
  The \<^verbatim>\<open>col\<close> argument of \<^verbatim>\<open>set_geometry\<close>: a reference to a column,
  which is a column name or an integer (a position in \<^verbatim>\<open>self.columns\<close>), or a
  list or array of values, for which
  \<^verbatim>\<open>isinstance(col, (list, np.ndarray, Series))\<close> holds. A \<^verbatim>\<open>Series\<close>
  argument, which pandas aligns on its own row labels before storing it, is not
  covered.
\<close>

datatype col_ref =
    ColName string
  | ColPos int

datatype geometry_arg =
    Ref col_ref
  | ValueList "cell list"

definition ambiguous_msg :: string where
  "ambiguous_msg = ''Ambiguous column name''"

text \<open>
  The statements of \<^verbatim>\<open>set_geometry\<close> between the choice of \<^verbatim>\<open>frame\<close> and
  the final \<^verbatim>\<open>return\<close>. They mutate \<^verbatim>\<open>frame\<close>; the function returns the
  frame as the statements leave it and the exception raised, if any.
  \<^verbatim>\<open>self_data\<close> is the frame behind \<^verbatim>\<open>self.columns\<close>.

  A name that is not a column is looked up in \<^verbatim>\<open>self.columns[col]\<close>, which
  raises for a string; the exception is swallowed and \<^verbatim>\<open>frame[col]\<close> then
  raises \<^verbatim>\<open>KeyError\<close>. An integer is never a column label here, so it is always
  looked up by position, and an integer out of range reaches \<^verbatim>\<open>frame[col]\<close>
  unchanged.
\<close>

definition set_geometry_body ::
  "geodataframe \<Rightarrow> frame \<Rightarrow> geometry_arg \<Rightarrow> bool \<Rightarrow> geodataframe \<times> error option" where
  "set_geometry_body frame self_data col drop' =
     (case col of
        ValueList level \<Rightarrow>
          (case df_setitem_list (data frame) (geometry_column_name frame) level of
             Inl e \<Rightarrow> (frame, Some e)
           | Inr d \<Rightarrow> (frame\<lparr>data := d\<rparr>, None))
      | Ref r \<Rightarrow>
          (case (case r of
                   ColName s \<Rightarrow> Inr s
                 | ColPos i \<Rightarrow> columns_getitem self_data i) of
             Inl e \<Rightarrow> (frame, Some KeyError)
           | Inr c \<Rightarrow>
               (case getitem frame (KeyLabel c) of
                  Inl e \<Rightarrow> (frame, Some e)
                | Inr level \<Rightarrow>
                    if \<not> isinstance_Series level
                    then (frame, Some (ValueError ambiguous_msg))
                    else if drop'
                    then (if c \<noteq> geometry_column_name frame
                          then (case obj level of
                                  FrameObj fr \<Rightarrow> (frame, Some TypeError)
                                | SeriesObj n i vs \<Rightarrow>
                                    (let frame1 = frame\<lparr>data :=
                                           store_column (data frame) (geometry_column_name frame) vs\<rparr>
                                     in case df_drop (data frame1) (StrL c) of
                                          Inl e \<Rightarrow> (frame1, Some e)
                                        | Inr d \<Rightarrow> (frame1\<lparr>data := d\<rparr>, None)))
                          else (frame, None))
                    else (frame\<lparr>geometry_column_name := c\<rparr>, None))))"

text \<open>
  What a method call leaves behind: \<^verbatim>\<open>self\<close> after the call, and either the
  exception raised or the value returned (\<^verbatim>\<open>None\<close> for an in-place call).
\<close>

type_synonym outcome = "geodataframe \<times> (error + geodataframe option)"

text \<open>\<^verbatim>\<open>set_geometry(col, drop, inplace=True)\<close>: \<^verbatim>\<open>frame\<close> is \<^verbatim>\<open>self\<close>.\<close>

definition set_geometry_inplace :: "geodataframe \<Rightarrow> geometry_arg \<Rightarrow> bool \<Rightarrow> outcome" where
  "set_geometry_inplace self col drop' =
     (case set_geometry_body self (data self) col drop' of
        (frame, Some e) \<Rightarrow> (frame, Inl e)
      | (frame, None) \<Rightarrow> (frame, Inr None))"

definition must_msg :: "string \<Rightarrow> string" where
  "must_msg name = ''Must either pass geometry explicitly or includea column called '' @ name"

text \<open>
  \<^verbatim>\<open>GeoDataFrame.__init__\<close>. The first argument is the frame that
  \<^verbatim>\<open>DataFrame.__init__\<close> has built from \<^verbatim>\<open>*args\<close> and \<^verbatim>\<open>**kwargs\<close>. A new
  instance reads \<^verbatim>\<open>_geometry_column_name\<close> from the class: \<^verbatim>\<open>'geometry'\<close>.
\<close>

definition GeoDataFrame_init ::
  "frame \<Rightarrow> crs_dict option \<Rightarrow> geometry_arg option \<Rightarrow> error + geodataframe" where
  "GeoDataFrame_init d c geom =
     (let self = \<lparr>data = d, crs = c, geometry_column_name = ''geometry''\<rparr> in
      case (case geom of
              None \<Rightarrow> (self, Inr None)
            | Some g \<Rightarrow> set_geometry_inplace self g True) of
        (self1, Inl e) \<Rightarrow> Inl e
      | (self1, Inr r) \<Rightarrow>
          if \<not> df_contains (data self1) (geometry_column_name self1)
          then Inl (ValueError (must_msg (geometry_column_name self1)))
          else Inr self1)"

text \<open>\<^verbatim>\<open>__finalize__\<close>: copy every attribute named in \<^verbatim>\<open>_metadata\<close> from \<^verbatim>\<open>other\<close>.\<close>

definition finalize :: "geodataframe \<Rightarrow> geodataframe \<Rightarrow> geodataframe" where
  "finalize self other =
     self\<lparr>crs := crs other, geometry_column_name := geometry_column_name other\<rparr>"

text \<open>
  \<^verbatim>\<open>self._data.copy()\<close> duplicates the storage; the duplicate holds the same
  values. Frames are values here, so the duplicate is the frame itself.
\<close>

definition data_copy :: "frame \<Rightarrow> frame" where
  "data_copy d = d"

text \<open>\<^verbatim>\<open>copy\<close>: \<^verbatim>\<open>GeoDataFrame(data).__finalize__(self)\<close>.\<close>

definition copy :: "geodataframe \<Rightarrow> bool \<Rightarrow> error + geodataframe" where
  "copy self deep =
     (let d = data self;
          d = (if deep then data_copy d else d)
      in case GeoDataFrame_init d None None of
           Inl e \<Rightarrow> Inl e
         | Inr new \<Rightarrow> Inr (finalize new self))"

text \<open>
  \<^verbatim>\<open>set_geometry(col, drop=True, inplace=False)\<close>. Without \<^verbatim>\<open>inplace\<close> the
  statements run on \<^verbatim>\<open>self.copy()\<close> and \<^verbatim>\<open>self\<close> stays as it was.
\<close>

definition set_geometry :: "geodataframe \<Rightarrow> geometry_arg \<Rightarrow> bool \<Rightarrow> bool \<Rightarrow> outcome" where
  "set_geometry self col drop' inplace =
     (if inplace then set_geometry_inplace self col drop'
      else (case copy self True of
              Inl e \<Rightarrow> (self, Inl e)
            | Inr frame \<Rightarrow>
                (case set_geometry_body frame (data self) col drop' of
                   (frame1, Some e) \<Rightarrow> (self, Inl e)
                 | (frame1, None) \<Rightarrow> (self, Inr (Some frame1)))))"

definition use_set_geometry_msg :: string where
  "use_set_geometry_msg = ''Use set_geometry() to set an existing column as geometry''"

text \<open>
  The function \<^verbatim>\<open>geometry_setter\<close>. \<^verbatim>\<open>col in self\<close> hashes \<^verbatim>\<open>col\<close>, which
  raises \<^verbatim>\<open>TypeError\<close> for a list.
\<close>

definition geometry_setter :: "geodataframe \<Rightarrow> geometry_arg \<Rightarrow> outcome" where
  "geometry_setter self col =
     (case col of
        ValueList l \<Rightarrow> (self, Inl TypeError)
      | Ref (ColName s) \<Rightarrow>
          if df_contains (data self) s
          then (self, Inl (ValueError use_set_geometry_msg))
          else set_geometry self col True True
      | Ref (ColPos i) \<Rightarrow> set_geometry self col True True)"

subsection \<open>Assignment to the attributes that the class body binds to properties\<close>

text \<open>
  \<^verbatim>\<open>@property def geometry\<close> binds the name \<^verbatim>\<open>geometry\<close> to a property whose
  getter is that function. \<^verbatim>\<open>@geometry.setter def geometry_setter\<close> evaluates
  \<^verbatim>\<open>geometry.setter(f)\<close>, which returns a copy of the property with \<^verbatim>\<open>f\<close> as
  its setter, and binds the copy to the name of the decorated function,
  \<^verbatim>\<open>geometry_setter\<close>. The property bound to \<^verbatim>\<open>geometry\<close> keeps no setter.
\<close>

datatype attr_name = Attr_geometry | Attr_geometry_setter

fun attr_string :: "attr_name \<Rightarrow> string" where
  "attr_string Attr_geometry = ''geometry''"
| "attr_string Attr_geometry_setter = ''geometry_setter''"

record property =
  fget :: "geodataframe \<Rightarrow> error + item"
  fset :: "(geodataframe \<Rightarrow> geometry_arg \<Rightarrow> outcome) option"

fun class_property :: "attr_name \<Rightarrow> property" where
  "class_property Attr_geometry = \<lparr>fget = geometry, fset = None\<rparr>"
| "class_property Attr_geometry_setter = \<lparr>fget = geometry, fset = Some geometry_setter\<rparr>"

text \<open>
  \<^verbatim>\<open>object.__setattr__\<close> on a name bound to a property calls the property's
  setter, and raises \<^verbatim>\<open>AttributeError\<close> when the property has none.
\<close>

definition object_setattr :: "geodataframe \<Rightarrow> attr_name \<Rightarrow> geometry_arg \<Rightarrow> outcome" where
  "object_setattr self a v =
     (case fset (class_property a) of
        None \<Rightarrow> (self, Inl AttributeError)
      | Some f \<Rightarrow> f self v)"

text \<open>
  \<^verbatim>\<open>self[name] = value\<close> for the values an assignment can carry here: a string
  and an integer are single values, a list is a column.
\<close>

definition df_setitem :: "frame \<Rightarrow> string \<Rightarrow> geometry_arg \<Rightarrow> error + frame" where
  "df_setitem f k v =
     (case v of
        Ref (ColName s) \<Rightarrow> Inr (df_setitem_scalar f k (StrV s))
      | Ref (ColPos i) \<Rightarrow> Inr (df_setitem_scalar f k (IntV i))
      | ValueList l \<Rightarrow> df_setitem_list f k l)"

text \<open>
  The statement \<^verbatim>\<open>df.name = value\<close> runs the \<^verbatim>\<open>__setattr__\<close> that pandas
  defines for its frames: when \<^verbatim>\<open>name\<close> is a column label the value is stored
  in that column (\<^verbatim>\<open>self[name] = value\<close>), otherwise the assignment is handed to
  \<^verbatim>\<open>object.__setattr__\<close>.
\<close>

definition setattr :: "geodataframe \<Rightarrow> attr_name \<Rightarrow> geometry_arg \<Rightarrow> outcome" where
  "setattr self a v =
     (if df_contains (data self) (attr_string a)
      then (case df_setitem (data self) (attr_string a) v of
              Inl e \<Rightarrow> (self, Inl e)
            | Inr d \<Rightarrow> (self\<lparr>data := d\<rparr>, Inr None))
      else object_setattr self a v)"

section \<open>Export\<close>

subsection \<open>Rows, dictionaries and features\<close>






text \<open>\<^verbatim>\<open>str(i)\<close> for a row label.\<close>

definition digit_char :: "nat \<Rightarrow> char" where
  "digit_char n = ''0123456789'' ! (n mod 10)"

function str_nat :: "nat \<Rightarrow> string" where
  "str_nat n = (if n < 10 then [digit_char n] else str_nat (n div 10) @ [digit_char (n mod 10)])"
  by pat_completeness auto
termination
  by (relation "measure (\<lambda>n. n)") auto

declare str_nat.simps [simp del]

definition str_int :: "int \<Rightarrow> string" where
  "str_int i = (if i < 0 then CHR ''-'' # str_nat (nat (- i)) else str_nat (nat i))"

fun str :: "label \<Rightarrow> string" where
  "str (IntL i) = str_int i"
| "str (StrL s) = s"





subsection \<open>GeoJSON\<close>



subsection \<open>Vector files\<close>












section \<open>Example tables\<close>

definition point :: "int \<Rightarrow> int \<Rightarrow> cell" where
  "point x y = GeomV (Geometry ''Point'' [(of_int x, of_int y)])"

text \<open>A table read from a file, to which a column of simplified geometries was added.\<close>

definition boros :: geodataframe where
  "boros =
     \<lparr>data = \<lparr>index = [IntL 0, IntL 1],
              cols = [(''BoroName'', [StrV ''Queens'', StrV ''Bronx'']),
                      (''geometry'', [point 0 0, point 1 1]),
                      (''simplified_geometry'', [point 5 0, point 6 1])]\<rparr>,
      crs = Some [(''init'', ''epsg:4326'')],
      geometry_column_name = ''geometry''\<rparr>"

text \<open>The same table with rows labelled by strings, one of them the name of a column.\<close>

definition named_rows :: geodataframe where
  "named_rows =
     \<lparr>data = \<lparr>index = [StrL ''simplified_geometry'', StrL ''other''],
              cols = [(''BoroName'', [StrV ''Queens'', StrV ''Bronx'']),
                      (''geometry'', [point 0 0, point 1 1]),
                      (''simplified_geometry'', [point 5 0, point 6 1])]\<rparr>,
      crs = None,
      geometry_column_name = ''geometry''\<rparr>"

text \<open>
  A table whose geometry column is \<^verbatim>\<open>location\<close> and that has no column called
  \<^verbatim>\<open>geometry\<close>: the state that \<^verbatim>\<open>test_different_geo_colname\<close> expects of
  \<^verbatim>\<open>GeoDataFrame(data, geometry='location')\<close>, and the state that
  \<^verbatim>\<open>set_geometry('location', drop=False, inplace=True)\<close> followed by
  \<^verbatim>\<open>del df['geometry']\<close> leaves.
\<close>

definition located :: geodataframe where
  "located =
     \<lparr>data = \<lparr>index = [IntL 0, IntL 1],
              cols = [(''A'', [IntV 0, IntV 1]),
                      (''location'', [point 0 0, point 1 1])]\<rparr>,
      crs = Some [(''init'', ''epsg:4326'')],
      geometry_column_name = ''location''\<rparr>"






section \<open>The feature that \<^verbatim>\<open>to_json\<close> builds for a row\<close>


section \<open>Facts about the container\<close>

lemma store_column_contains: "df_contains (store_column f k vs) k"
proof (cases "df_contains f k")
  case True
  then obtain c where "c \<in> set (cols f)" "fst c = k"
    by (auto simp: df_contains_def columns_def)
  then have "(k, vs) \<in> set (map (\<lambda>c. if fst c = k then (k, vs) else c) (cols f))"
    by force
  with True show ?thesis
    by (simp add: store_column_def df_contains_def columns_def) force
next
  case False
  then show ?thesis
    by (simp add: store_column_def df_contains_def columns_def)
qed

lemma store_column_values:
  "c \<in> set (cols (store_column f k vs)) \<Longrightarrow> fst c = k \<Longrightarrow> snd c = vs"
  by (cases c) (force simp: store_column_def df_contains_def columns_def split: if_splits)

lemma store_column_others:
  "filter (\<lambda>c. fst c \<noteq> k) (cols (store_column f k vs)) = filter (\<lambda>c. fst c \<noteq> k) (cols f)"
proof -
  have "filter (\<lambda>c. fst c \<noteq> k) (map (\<lambda>c. if fst c = k then (k, vs) else c) xs) =
        filter (\<lambda>c. fst c \<noteq> k) xs" for xs :: "(string \<times> cell list) list"
    by (induction xs) auto
  then show ?thesis
    by (auto simp: store_column_def df_contains_def columns_def)
qed

lemma store_column_index: "index (store_column f k vs) = index f"
  by (simp add: store_column_def)

lemma df_drop_columns: "df_drop f l = Inr d \<Longrightarrow> columns d = columns f"
  by (auto simp: df_drop_def columns_def split: if_splits)

lemma df_setitem_list_contains: "df_setitem_list f k vs = Inr d \<Longrightarrow> df_contains d k"
  by (auto simp: df_setitem_list_def store_column_contains split: if_splits)

lemma select_columns_absent: "\<not> df_contains f k \<Longrightarrow> select_columns f k = []"
  by (force simp: df_contains_def columns_def select_columns_def filter_empty_conv)

lemma df_getitem_label_contains:
  assumes "df_getitem f (KeyLabel k) = Inr r"
  shows "df_contains f k"
proof (rule ccontr)
  assume "\<not> df_contains f k"
  then have "df_getitem f (KeyLabel k) = Inl KeyError"
    by (simp add: df_getitem_def select_columns_absent)
  with assms show False by simp
qed

section \<open>Construction\<close>

text \<open>
  When the statements of \<^verbatim>\<open>set_geometry\<close>, with \<^verbatim>\<open>drop=True\<close>, run without an
  exception, the frame has its geometry column.
\<close>

lemma set_geometry_body_column:
  assumes "set_geometry_body frame sd col True = (s, None)"
  shows "df_contains (data s) (geometry_column_name s)"
proof (cases col)
  case (ValueList level)
  with assms show ?thesis
    by (auto simp: set_geometry_body_def df_setitem_list_contains split: sum.splits)
next
  case (Ref r)
  obtain c where c: "(case r of ColName s \<Rightarrow> Inr s | ColPos i \<Rightarrow> columns_getitem sd i) = Inr c"
    using assms Ref by (auto simp: set_geometry_body_def split: sum.splits)
  obtain level where level: "getitem frame (KeyLabel c) = Inr level"
    using assms Ref c by (auto simp: set_geometry_body_def split: sum.splits)
  then have in_frame: "df_contains (data frame) c"
    using df_getitem_label_contains [of "data frame" c]
    by (auto simp: getitem_def Let_def split: sum.splits)
  show ?thesis
  proof (cases "c = geometry_column_name frame")
    case True
    with assms Ref c level in_frame show ?thesis
      by (auto simp: set_geometry_body_def split: if_splits)
  next
    case False
    with assms Ref c level obtain n i vs d where
      d: "df_drop (store_column (data frame) (geometry_column_name frame) vs) (StrL c) = Inr d"
      and s: "s = frame\<lparr>data := d\<rparr>"
      by (auto simp: set_geometry_body_def Let_def split: if_splits pandas_obj.splits sum.splits)
    have "df_contains (store_column (data frame) (geometry_column_name frame) vs)
            (geometry_column_name frame)"
      by (rule store_column_contains)
    then show ?thesis
      using df_drop_columns [OF d] s by (simp add: df_contains_def)
  qed
qed

text \<open>
  C1. Whenever \<^verbatim>\<open>GeoDataFrame.__init__\<close> returns, the table has a column named by
  its geometry-column name. When no \<^verbatim>\<open>geometry\<close> argument is passed and the frame
  built from the data has no column \<^verbatim>\<open>geometry\<close>, construction raises the
  \<^verbatim>\<open>ValueError\<close> of the final check. When a \<^verbatim>\<open>geometry\<close> argument is passed and
  its promotion raises nothing, the column is there and construction returns the
  table that the promotion left.
\<close>

theorem GeoDataFrame_init_geometry_column:
  "(GeoDataFrame_init d c g = Inr t \<longrightarrow> df_contains (data t) (geometry_column_name t)) \<and>
   (\<not> df_contains d ''geometry'' \<longrightarrow>
      GeoDataFrame_init d c None = Inl (ValueError (must_msg ''geometry''))) \<and>
   (set_geometry_inplace \<lparr>data = d, crs = c, geometry_column_name = ''geometry''\<rparr> a True =
      (s, Inr r) \<longrightarrow> GeoDataFrame_init d c (Some a) = Inr s)"
proof (intro conjI impI)
  assume "GeoDataFrame_init d c g = Inr t"
  then show "df_contains (data t) (geometry_column_name t)"
    by (auto simp: GeoDataFrame_init_def Let_def
             split: option.splits prod.splits sum.splits if_splits)
next
  assume "\<not> df_contains d ''geometry''"
  then show "GeoDataFrame_init d c None = Inl (ValueError (must_msg ''geometry''))"
    by (simp add: GeoDataFrame_init_def)
next
  let ?self = "\<lparr>data = d, crs = c, geometry_column_name = ''geometry''\<rparr>"
  assume a: "set_geometry_inplace ?self a True = (s, Inr r)"
  then have "set_geometry_body ?self (data ?self) a True = (s, None)"
    by (auto simp: set_geometry_inplace_def split: prod.splits option.splits)
  then have "df_contains (data s) (geometry_column_name s)"
    by (rule set_geometry_body_column)
  with a show "GeoDataFrame_init d c (Some a) = Inr s"
    by (simp add: GeoDataFrame_init_def)
qed

theorem GeoDataFrame_init_geometry_column_witness:
  "GeoDataFrame_init (data boros) None None = Inr (boros\<lparr>crs := None\<rparr>) \<and>
   df_contains (data (boros\<lparr>crs := None\<rparr>)) (geometry_column_name (boros\<lparr>crs := None\<rparr>)) \<and>
   \<not> df_contains (data located) ''geometry'' \<and>
   GeoDataFrame_init (data located) None None = Inl (ValueError (must_msg ''geometry'')) \<and>
   set_geometry_inplace \<lparr>data = data located, crs = None, geometry_column_name = ''geometry''\<rparr>
       (ValueList [point 7 7, point 8 8]) True =
     (\<lparr>data = \<lparr>index = [IntL 0, IntL 1],
               cols = [(''A'', [IntV 0, IntV 1]),
                       (''location'', [point 0 0, point 1 1]),
                       (''geometry'', [point 7 7, point 8 8])]\<rparr>,
       crs = None, geometry_column_name = ''geometry''\<rparr>, Inr None) \<and>
   GeoDataFrame_init (data located) None (Some (ValueList [point 7 7, point 8 8])) =
     Inr \<lparr>data = \<lparr>index = [IntL 0, IntL 1],
                    cols = [(''A'', [IntV 0, IntV 1]),
                            (''location'', [point 0 0, point 1 1]),
                            (''geometry'', [point 7 7, point 8 8])]\<rparr>,
          crs = None, geometry_column_name = ''geometry''\<rparr>"
proof -
  have p: "set_geometry_inplace
       \<lparr>data = data located, crs = None, geometry_column_name = ''geometry''\<rparr>
       (ValueList [point 7 7, point 8 8]) True =
     (\<lparr>data = \<lparr>index = [IntL 0, IntL 1],
               cols = [(''A'', [IntV 0, IntV 1]),
                       (''location'', [point 0 0, point 1 1]),
                       (''geometry'', [point 7 7, point 8 8])]\<rparr>,
       crs = None, geometry_column_name = ''geometry''\<rparr>, Inr None)"
    by code_simp
  have q: "GeoDataFrame_init (data boros) None None = Inr (boros\<lparr>crs := None\<rparr>)"
    "\<not> df_contains (data located) ''geometry''"
    by (simp_all add: boros_def located_def GeoDataFrame_init_def df_contains_def columns_def)
  show ?thesis
    using GeoDataFrame_init_geometry_column [of "data boros" None None "boros\<lparr>crs := None\<rparr>"]
      GeoDataFrame_init_geometry_column [of "data located" None None _ "ValueList [point 7 7, point 8 8]"]
      p q
    by simp
qed

section \<open>Copy\<close>

lemma copy_cases:
  "copy self deep =
     (if df_contains (data self) ''geometry'' then Inr self
      else Inl (ValueError (must_msg ''geometry'')))"
  by (cases self) (simp add: copy_def GeoDataFrame_init_def data_copy_def finalize_def)

text \<open>
  C7. \<^verbatim>\<open>copy\<close> builds \<^verbatim>\<open>GeoDataFrame(data)\<close> before \<^verbatim>\<open>__finalize__\<close> carries the
  geometry-column name over, so \<^verbatim>\<open>__init__\<close> looks for the default name: on a
  table whose geometry column is \<^verbatim>\<open>location\<close> and that has no column
  \<^verbatim>\<open>geometry\<close>, \<^verbatim>\<open>copy\<close> raises \<^verbatim>\<open>ValueError\<close> and returns no table, deep
  or not.
\<close>

theorem copy_without_default_column:
  "copy located True = Inl (ValueError (must_msg ''geometry'')) \<and>
   copy located False = Inl (ValueError (must_msg ''geometry''))"
  by (simp add: copy_cases located_def df_contains_def columns_def)

section \<open>Set geometry\<close>

lemma select_columns_nonempty:
  "df_contains f k \<Longrightarrow> select_columns f k \<noteq> []"
  by (auto simp: df_contains_def columns_def select_columns_def filter_empty_conv)

lemma df_getitem_label_defined:
  "df_contains f k \<Longrightarrow> \<exists>r. df_getitem f (KeyLabel k) = Inr r"
  using select_columns_nonempty [of f k]
  by (auto simp: df_getitem_def split: list.splits)

lemma getitem_geometry_column:
  assumes "df_contains (data self) (geometry_column_name self)"
  shows "\<exists>r. getitem self (KeyLabel (geometry_column_name self)) =
           Inr \<lparr>cls = ClsGeoSeries, obj = r, crs_attr = Some (crs self)\<rparr>"
  using df_getitem_label_defined [OF assms] by (auto simp: getitem_def)

lemma set_geometry_body_same_column:
  assumes "df_contains (data frame) (geometry_column_name frame)"
  shows "set_geometry_body frame d (Ref (ColName (geometry_column_name frame))) True =
           (frame, None)"
  using getitem_geometry_column [OF assms]
  by (auto simp: set_geometry_body_def isinstance_Series_def)

text \<open>
  C2. \<^verbatim>\<open>set_geometry('simplified_geometry')\<close>, with \<^verbatim>\<open>drop=True\<close>, never
  removes the column: \<^verbatim>\<open>frame.drop(col, inplace=True)\<close> looks \<^verbatim>\<open>col\<close> up among
  the row labels. On a table with the default row labels the call raises; on a
  table with a row labelled \<^verbatim>\<open>simplified_geometry\<close> it removes that row and
  returns a table that still has the column.
\<close>

theorem set_geometry_drop_keeps_column:
  "set_geometry boros (Ref (ColName ''simplified_geometry'')) True False =
     (boros, Inl (ValueError ''labels not contained in axis'')) \<and>
   set_geometry named_rows (Ref (ColName ''simplified_geometry'')) True False =
     (named_rows,
      Inr (Some \<lparr>data = \<lparr>index = [StrL ''other''],
                         cols = [(''BoroName'', [StrV ''Bronx'']),
                                 (''geometry'', [point 6 1]),
                                 (''simplified_geometry'', [point 6 1])]\<rparr>,
                 crs = None,
                 geometry_column_name = ''geometry''\<rparr>))"
  by code_simp

text \<open>
  With \<^verbatim>\<open>drop=False\<close> the column stays and the geometry-column name becomes
  \<^verbatim>\<open>col\<close>; nothing else changes.
\<close>

lemma set_geometry_no_drop:
  assumes "select_columns (data self) k = [c]"
  shows "set_geometry self (Ref (ColName k)) False True =
           (self\<lparr>geometry_column_name := k\<rparr>, Inr None)"
  using assms
  by (simp add: set_geometry_def set_geometry_inplace_def set_geometry_body_def getitem_def
                df_getitem_def isinstance_Series_def Let_def)

text \<open>
  On a table that has its geometry column, \<^verbatim>\<open>set_geometry\<close> with that column's
  name and \<^verbatim>\<open>drop=True\<close> changes nothing: in place it leaves \<^verbatim>\<open>self\<close> as it
  was; otherwise \<^verbatim>\<open>self\<close> is untouched, every table it returns equals
  \<^verbatim>\<open>self\<close>, and it returns one whenever a column is called \<^verbatim>\<open>geometry\<close>.
\<close>

lemma set_geometry_same_column:
  assumes "df_contains (data self) (geometry_column_name self)"
  shows "set_geometry self (Ref (ColName (geometry_column_name self))) True True =
           (self, Inr None) \<and>
         (df_contains (data self) ''geometry'' \<longrightarrow>
            set_geometry self (Ref (ColName (geometry_column_name self))) True False =
              (self, Inr (Some self))) \<and>
         fst (set_geometry self (Ref (ColName (geometry_column_name self))) True False) = self \<and>
         (\<forall>t. snd (set_geometry self (Ref (ColName (geometry_column_name self))) True False) =
                 Inr (Some t) \<longrightarrow> t = self)"
  using set_geometry_body_same_column [OF assms]
  by (auto simp: set_geometry_def set_geometry_inplace_def copy_cases split: if_splits)

text \<open>
  C9. On a table whose geometry column is \<^verbatim>\<open>location\<close> and that has no column
  \<^verbatim>\<open>geometry\<close>, \<^verbatim>\<open>set_geometry('location')\<close> returns no table: it starts with
  \<^verbatim>\<open>self.copy()\<close>, which raises \<^verbatim>\<open>ValueError\<close>. In place the same call leaves
  the table as it was.
\<close>

theorem set_geometry_same_column_raises:
  "set_geometry located (Ref (ColName ''location'')) True False =
     (located, Inl (ValueError (must_msg ''geometry''))) \<and>
   set_geometry located (Ref (ColName ''location'')) True True = (located, Inr None)"
  by code_simp

section \<open>The geometry property\<close>

text \<open>
  The function \<^verbatim>\<open>geometry_setter\<close>, when it is called with the name of an
  existing column, raises the error that points to \<^verbatim>\<open>set_geometry\<close>; and it is
  called by an assignment to the attribute \<^verbatim>\<open>geometry_setter\<close>.
\<close>

lemma geometry_setter_existing_column:
  "df_contains (data self) s \<Longrightarrow>
   geometry_setter self (Ref (ColName s)) = (self, Inl (ValueError use_set_geometry_msg))"
  by (simp add: geometry_setter_def)

lemma setattr_geometry_setter:
  "\<not> df_contains (data self) ''geometry_setter'' \<Longrightarrow>
   setattr self Attr_geometry_setter v = geometry_setter self v"
  by (simp add: setattr_def object_setattr_def)

text \<open>
  C8. The property \<^verbatim>\<open>geometry\<close> has no setter, so \<^verbatim>\<open>df.geometry = name\<close>
  never reaches \<^verbatim>\<open>geometry_setter\<close>. With the name of an existing column, the
  assignment writes that string into every row of the column \<^verbatim>\<open>geometry\<close> and
  raises nothing; on a table with no column \<^verbatim>\<open>geometry\<close> it raises
  \<^verbatim>\<open>AttributeError\<close>.
\<close>

theorem geometry_assignment_bypasses_setter:
  "fset (class_property Attr_geometry) = None \<and>
   setattr boros Attr_geometry (Ref (ColName ''simplified_geometry'')) =
     (boros\<lparr>data := \<lparr>index = [IntL 0, IntL 1],
                     cols = [(''BoroName'', [StrV ''Queens'', StrV ''Bronx'']),
                             (''geometry'', [StrV ''simplified_geometry'',
                                             StrV ''simplified_geometry'']),
                             (''simplified_geometry'', [point 5 0, point 6 1])]\<rparr>\<rparr>,
      Inr None) \<and>
   setattr located Attr_geometry (Ref (ColName ''A'')) = (located, Inl AttributeError)"
  by (simp add: setattr_def object_setattr_def df_setitem_def df_setitem_scalar_def
                store_column_def df_contains_def columns_def boros_def located_def)

section \<open>Column selection\<close>

lemma columns_projection:
  "set (map fst (concat (map (select_columns f) ks))) = {k \<in> set ks. df_contains f k}"
  by (auto simp: select_columns_def df_contains_def columns_def)

text \<open>
  Selecting the geometry column by its name, when one column has that name,
  gives that column as a \<^verbatim>\<open>GeoSeries\<close> with the table's CRS.
\<close>

lemma getitem_geometry_name:
  "select_columns (data self) (geometry_column_name self) = [c] \<Longrightarrow>
   getitem self (KeyLabel (geometry_column_name self)) =
     Inr \<lparr>cls = ClsGeoSeries,
          obj = SeriesObj (geometry_column_name self) (index (data self)) (snd c),
          crs_attr = Some (crs self)\<rparr>"
  by (simp add: getitem_def df_getitem_def)

text \<open>
  Selecting a list of existing columns that includes the geometry column gives
  those columns as a \<^verbatim>\<open>GeoDataFrame\<close> with the table's CRS.
\<close>

lemma getitem_with_geometry:
  assumes "\<forall>k \<in> set ks. df_contains (data self) k"
    and "geometry_column_name self \<in> set ks"
  shows "getitem self (KeyList ks) =
           Inr \<lparr>cls = ClsGeoDataFrame,
                obj = FrameObj \<lparr>index = index (data self),
                                cols = concat (map (select_columns (data self)) ks)\<rparr>,
                crs_attr = Some (crs self)\<rparr>"
  using assms columns_projection [of "data self" ks]
  by (auto simp: getitem_def df_getitem_def df_contains_def [of "\<lparr>index = _, cols = _\<rparr>"]
                 columns_def [of "\<lparr>index = _, cols = _\<rparr>"])

text \<open>
  Selecting a list of existing columns that excludes the geometry column gives a
  plain \<^verbatim>\<open>DataFrame\<close> of those columns if the assignment of the CRS to the
  column \<^verbatim>\<open>crs\<close> succeeds, and the exception of the assignment otherwise.
\<close>

lemma getitem_without_geometry:
  assumes "\<forall>k \<in> set ks. df_contains (data self) k"
    and "geometry_column_name self \<notin> set ks"
  shows "getitem self (KeyList ks) =
           (case df_setitem_crs \<lparr>index = index (data self),
                                 cols = concat (map (select_columns (data self)) ks)\<rparr>
                                ''crs'' (crs self) of
              Inl e \<Rightarrow> Inl e
            | Inr r \<Rightarrow> Inr \<lparr>cls = ClsDataFrame, obj = FrameObj r, crs_attr = None\<rparr>)"
proof -
  let ?p = "\<lparr>index = index (data self), cols = concat (map (select_columns (data self)) ks)\<rparr>"
  have "\<not> df_contains ?p (geometry_column_name self)"
    using assms(2) columns_projection [of "data self" ks]
    by (simp add: df_contains_def [of ?p] columns_def [of ?p])
  then show ?thesis
    using assms(1) by (simp add: getitem_def df_getitem_def)
qed

text \<open>
  When the table's CRS is \<^verbatim>\<open>None\<close> the assignment succeeds: the result has a
  column \<^verbatim>\<open>crs\<close>, every column of that name holds \<^verbatim>\<open>None\<close> on each row, and
  the other selected columns and the row labels are unchanged.
\<close>

lemma getitem_crs_none:
  assumes "\<forall>k \<in> set ks. df_contains (data self) k"
    and "geometry_column_name self \<notin> set ks"
    and "crs self = None"
  shows "\<exists>r. getitem self (KeyList ks) =
              Inr \<lparr>cls = ClsDataFrame, obj = FrameObj r, crs_attr = None\<rparr> \<and>
             df_contains r ''crs'' \<and>
             (\<forall>c \<in> set (cols r). fst c = ''crs'' \<longrightarrow>
                snd c = replicate (length (index (data self))) NoneV) \<and>
             filter (\<lambda>c. fst c \<noteq> ''crs'') (cols r) =
               filter (\<lambda>c. fst c \<noteq> ''crs'') (concat (map (select_columns (data self)) ks)) \<and>
             index r = index (data self)"
proof -
  let ?p = "\<lparr>index = index (data self), cols = concat (map (select_columns (data self)) ks)\<rparr>"
  let ?vs = "replicate (length (index (data self))) NoneV"
  let ?r = "store_column ?p ''crs'' ?vs"
  have "getitem self (KeyList ks) =
          Inr \<lparr>cls = ClsDataFrame, obj = FrameObj ?r, crs_attr = None\<rparr>"
    using getitem_without_geometry [OF assms(1,2)] assms(3)
    by (simp add: df_setitem_crs_def df_setitem_scalar_def)
  moreover have "df_contains ?r ''crs''"
    by (rule store_column_contains)
  moreover have "\<forall>c \<in> set (cols ?r). fst c = ''crs'' \<longrightarrow> snd c = ?vs"
    using store_column_values [of _ ?p "''crs''" ?vs] by blast
  moreover have "filter (\<lambda>c. fst c \<noteq> ''crs'') (cols ?r) =
                   filter (\<lambda>c. fst c \<noteq> ''crs'') (concat (map (select_columns (data self)) ks))"
    using store_column_others [of "''crs''" ?p ?vs] by simp
  moreover have "index ?r = index (data self)"
    by (simp add: store_column_index)
  ultimately show ?thesis by blast
qed

text \<open>
  When the table's CRS is a dictionary and the table has rows, but not one row
  per key of the dictionary, the assignment raises and so does the selection.
\<close>

lemma getitem_crs_dict_raises:
  assumes "\<forall>k \<in> set ks. df_contains (data self) k"
    and "geometry_column_name self \<notin> set ks"
    and "crs self = Some d"
    and "index (data self) \<noteq> []"
    and "length d \<noteq> length (index (data self))"
  shows "getitem self (KeyList ks) =
           Inl (ValueError ''Length of values does not match length of index'')"
  using getitem_without_geometry [OF assms(1,2)] assms(3,4,5)
  by (simp add: df_setitem_crs_def df_setitem_list_def)



section \<open>Export to a vector file\<close>















section \<open>Export to GeoJSON\<close>

subsection \<open>Dictionaries\<close>















subsection \<open>The document\<close>

lemma iterrows_length: "length (iterrows d) = length (index d)"
  by (simp add: iterrows_def)



























text \<open>Under the default row labels the label of a row is its position.\<close>

lemma default_labels_position:
  assumes "index d = map (\<lambda>j. IntL (int j)) [0..<n]" and "i < n"
  shows "str (index d ! i) = str_int (int i)"
  using assms by simp




subsection \<open>Missing values\<close>











end
